theory Spec2Isabelle
  imports Main
begin

section \<open>JavaScript values\<close>

text \<open>
  The component is written in TypeScript. A \<^verbatim>\<open>number\<close> is modelled by its integral
  values and \<^verbatim>\<open>NaN\<close> (the initial value of \<^verbatim>\<open>state.activeIndex\<close>); fractional
  and infinite numbers are left out. A sort key has type \<^verbatim>\<open>any\<close>: it is a JavaScript
  value, an object being known by its reference.
\<close>

datatype number = NaN | Num int

datatype jsval =
    Undefined
  | Null
  | Bool bool
  | Number number
  | Str string
  | Object nat

text \<open>
  The operator \<^verbatim>\<open>===\<close>: two values are strictly equal when they are the same value,
  except that \<^verbatim>\<open>NaN\<close> is not strictly equal to anything, itself included.
\<close>

definition strict_eq :: "jsval \<Rightarrow> jsval \<Rightarrow> bool" where
  "strict_eq a b \<longleftrightarrow> a = b \<and> a \<noteq> Number NaN"

text \<open>lodash's \<^verbatim>\<open>isUndefined\<close>.\<close>

definition isUndefined :: "jsval \<Rightarrow> bool" where
  "isUndefined v \<longleftrightarrow> v = Undefined"

text \<open>An optional boolean prop (\<^verbatim>\<open>loading?: boolean\<close>) is truthy only when it is \<^verbatim>\<open>true\<close>.\<close>

definition truthy :: "bool option \<Rightarrow> bool" where
  "truthy b \<longleftrightarrow> b = Some True"

text \<open>
  lodash's \<^verbatim>\<open>times(n, iteratee)\<close>, a library function. It converts \<^verbatim>\<open>n\<close> to an
  integer (\<^verbatim>\<open>NaN\<close> becomes 0) and returns the empty array when that is below 1 or
  above \<^verbatim>\<open>MAX_SAFE_INTEGER\<close>. Otherwise it returns
  \<^verbatim>\<open>baseTimes(min(n, MAX_ARRAY_LENGTH), iteratee)\<close>, the results of the iteratee at the
  indices from 0 on, in this order, and then calls the iteratee, dropping what it
  returns, while \<^verbatim>\<open>++index < n - MAX_ARRAY_LENGTH\<close>, with \<^verbatim>\<open>index\<close> starting at
  \<^verbatim>\<open>MAX_ARRAY_LENGTH\<close>.
\<close>

definition MAX_SAFE_INTEGER :: int where
  "MAX_SAFE_INTEGER = 9007199254740991"

definition MAX_ARRAY_LENGTH :: int where
  "MAX_ARRAY_LENGTH = 4294967295"

fun toInteger :: "number \<Rightarrow> int" where
  "toInteger NaN = 0"
| "toInteger (Num n) = n"

definition baseTimes :: "int \<Rightarrow> (number \<Rightarrow> 'a) \<Rightarrow> 'a list" where
  "baseTimes n iteratee = map (\<lambda>index. iteratee (Num (int index))) [0..<nat n]"

definition lodash_times :: "number \<Rightarrow> (number \<Rightarrow> 'a) \<Rightarrow> 'a list" where
  "lodash_times n iteratee =
     (if toInteger n < 1 \<or> toInteger n > MAX_SAFE_INTEGER then []
      else baseTimes (min (toInteger n) MAX_ARRAY_LENGTH) iteratee)"

text \<open>The indices at which \<^verbatim>\<open>times(n, iteratee)\<close> calls the iteratee, in order.\<close>

definition lodash_times_called :: "number \<Rightarrow> number list" where
  "lodash_times_called n =
     (if toInteger n < 1 \<or> toInteger n > MAX_SAFE_INTEGER then []
      else baseTimes (min (toInteger n) MAX_ARRAY_LENGTH) (\<lambda>index. index) @
           map Num [MAX_ARRAY_LENGTH + 1..toInteger n - MAX_ARRAY_LENGTH - 1])"

section \<open>The data model of sortabletable.tsx\<close>

text \<open>
  \<open>'n\<close> is \<^verbatim>\<open>React.ReactNode\<close>, content supplied by the caller and opaque to the table;
  \<open>'e\<close> is \<^verbatim>\<open>EmptyProps\<close>. An optional property is an \<open>option\<close>; the optional
  \<^verbatim>\<open>sortKey?: any\<close> of a column is \<open>Undefined\<close> when it is absent.
\<close>

datatype align = Left | Right | Center

record 'n SortableColumn =
  title :: 'n
  cell :: "number \<Rightarrow> 'n"
  rollup :: "'n option"
  sortKey :: jsval
  className :: "string option"
  titleAlign :: "align option"

record SortSetting =
  sortKey :: jsval
  ascending :: bool

text \<open>
  The two callbacks that notify the caller, \<^verbatim>\<open>onChangeSortSetting\<close> and
  \<^verbatim>\<open>onChangeExpansion\<close>, return nothing: calling one is an event, recorded with its
  arguments. An event handler of the markup is the list of the calls it makes, in order,
  when it fires.
\<close>

datatype outcall =
    OnChangeSortSetting SortSetting
  | OnChangeExpansion number bool

record 'n ExpandableConfig =
  rowIsExpanded :: "number \<Rightarrow> bool"
  expandedContent :: "number \<Rightarrow> 'n"

text \<open>
  \<^verbatim>\<open>this.props\<close>, after React has filled in \<^verbatim>\<open>defaultProps\<close>: \<^verbatim>\<open>count\<close>,
  \<^verbatim>\<open>columns\<close>, \<^verbatim>\<open>sortSetting\<close>, \<^verbatim>\<open>onChangeSortSetting\<close> and \<^verbatim>\<open>rowClass\<close> are
  always present.
\<close>

record ('n, 'e) TableProps =
  count :: number
  columns :: "'n SortableColumn list"
  sortSetting :: SortSetting
  className :: "string option"
  rowClass :: "number \<Rightarrow> string"
  expandableConfig :: "'n ExpandableConfig option"
  firstCellBordered :: "bool option"
  renderNoResult :: "'n option"
  loading :: "bool option"
  loadingLabel :: "string option"
  empty :: "bool option"
  emptyProps :: "'e option"

definition defaultProps :: "('n, 'e) TableProps" where
  "defaultProps =
     \<lparr> count = Num 0,
       columns = [],
       sortSetting = \<lparr> SortSetting.sortKey = Null, ascending = False \<rparr>,
       className = None,
       rowClass = (\<lambda>rowIndex. ''''),
       expandableConfig = None,
       firstCellBordered = None,
       renderNoResult = None,
       loading = None,
       loadingLabel = None,
       empty = None,
       emptyProps = None \<rparr>"

record State =
  visible :: bool
  activeIndex :: number

definition state :: State where
  "state = \<lparr> visible = False, activeIndex = NaN \<rparr>"

section \<open>Markup\<close>

text \<open>
  The attributes the component sets on an element. \<open>className\<close> is the list of class
  names in the order they are given, before the stylesheet module renames them and
  before they are joined with spaces.
\<close>

record Attrs =
  className :: "string list option"
  key :: "number option"
  onClick :: "outcall list option"
  colSpan :: "nat option"
  style :: "align option option"

definition no_attrs :: Attrs where
  "no_attrs = \<lparr> className = None, key = None, onClick = None, colSpan = None, style = None \<rparr>"

datatype ('n, 'e) node =
    Elem string Attrs "('n, 'e) node list"
  | Node 'n
  | Text string
  | Nodes "('n, 'e) node list"
  | Omitted
  | Empty "'e option"
  | Spin "string list"

text \<open>
  \<open>Elem\<close> is a host element with its children, \<open>Node\<close> content of the caller,
  \<open>Nodes\<close> an array child, \<open>Omitted\<close> a child that is \<^verbatim>\<open>null\<close>, \<^verbatim>\<open>false\<close> or
  \<^verbatim>\<open>undefined\<close>, \<open>Empty\<close> the external empty-state view with the props spread into it,
  and \<open>Spin\<close> the external loading indicator with its class names.

  React renders an array child as its elements in order and renders nothing for
  \<^verbatim>\<open>null\<close>, \<^verbatim>\<open>false\<close> and \<^verbatim>\<open>undefined\<close>.
\<close>

fun flatten :: "('n, 'e) node \<Rightarrow> ('n, 'e) node list" where
  "flatten (Nodes xs) = concat (map flatten xs)"
| "flatten Omitted = []"
| "flatten n = [n]"

fun attrs_of :: "('n, 'e) node \<Rightarrow> Attrs" where
  "attrs_of (Elem t a ch) = a"
| "attrs_of n = no_attrs"

fun children_of :: "('n, 'e) node \<Rightarrow> ('n, 'e) node list" where
  "children_of (Elem t a ch) = ch"
| "children_of n = []"

definition dom_children :: "('n, 'e) node \<Rightarrow> ('n, 'e) node list" where
  "dom_children n = concat (map flatten (children_of n))"






text \<open>
  The rows of a table body that are the body row of an index: they alone carry a click
  handler; the spacer row and the expanded-area row of an expanded index carry none.
\<close>

definition data_rows :: "('n, 'e) node \<Rightarrow> ('n, 'e) node list" where
  "data_rows body = filter (\<lambda>row. onClick (attrs_of row) \<noteq> None) (dom_children body)"

text \<open>Activating an element runs its click handler; an element without one does nothing.\<close>

definition activate :: "('n, 'e) node \<Rightarrow> outcall list" where
  "activate n = (case onClick (attrs_of n) of None \<Rightarrow> [] | Some calls \<Rightarrow> calls)"

text \<open>
  \<^verbatim>\<open>cx\<close> is the classnames function bound to the stylesheet: it keeps, in order, its
  string arguments that are not empty and the keys of its object arguments whose value is
  truthy, and drops an argument that is \<^verbatim>\<open>undefined\<close>.
\<close>

datatype cx_arg = Cls string | Flag string bool | Undef

fun cx_one :: "cx_arg \<Rightarrow> string list" where
  "cx_one (Cls s) = (if s = [] then [] else [s])"
| "cx_one (Flag s b) = (if b then [s] else [])"
| "cx_one Undef = []"

definition cx :: "cx_arg list \<Rightarrow> string list" where
  "cx args = concat (map cx_one args)"

definition opt_cls :: "string option \<Rightarrow> cx_arg" where
  "opt_cls c = (case c of None \<Rightarrow> Undef | Some s \<Rightarrow> Cls s)"

definition opt_node :: "'n option \<Rightarrow> ('n, 'e) node" where
  "opt_node c = (case c of None \<Rightarrow> Omitted | Some n \<Rightarrow> Node n)"

definition cls :: "string list \<Rightarrow> Attrs" where
  "cls names = no_attrs \<lparr> className := Some names \<rparr>"

section \<open>SortableTable\<close>

subsection \<open>clickSort\<close>

definition clickSort :: "('n, 'e) TableProps \<Rightarrow> jsval \<Rightarrow> outcall list" where
  "clickSort p clickedSortKey =
     (let (clickedSortKey', ascending') =
            (if strict_eq (SortSetting.sortKey (sortSetting p)) clickedSortKey
             then (if \<not> ascending (sortSetting p) then (clickedSortKey, True)
                   else (Null, False))
             else (clickedSortKey, False))
      in [OnChangeSortSetting
            \<lparr> SortSetting.sortKey = clickedSortKey', ascending = ascending' \<rparr>])"

subsection \<open>expansionControl\<close>

text \<open>The two glyphs, U+25BC and U+25B6, as their UTF-8 bytes.\<close>

definition glyph_expanded :: string where
  "glyph_expanded = [CHR 0xE2, CHR 0x96, CHR 0xBC]"

definition glyph_collapsed :: string where
  "glyph_collapsed = [CHR 0xE2, CHR 0x96, CHR 0xB6]"

definition expansionControl :: "bool \<Rightarrow> ('n, 'e) node" where
  "expansionControl expanded =
     (let content = (if expanded then glyph_expanded else glyph_collapsed)
      in Elem ''td''
           (cls (cx [Cls ''sort-table__cell'', Cls ''sort-table__cell__expansion-control'']))
           [Elem ''div'' no_attrs [Text content]])"

subsection \<open>renderRow\<close>

text \<open>The constant \<^verbatim>\<open>classes\<close> of \<^verbatim>\<open>renderRow\<close>.\<close>

definition rowClasses :: "('n, 'e) TableProps \<Rightarrow> State \<Rightarrow> number \<Rightarrow> string list" where
  "rowClasses p s rowIndex =
     cx [Cls ''sort-table__row'',
         Cls ''sort-table__row--body'',
         Cls (if strict_eq (Number (activeIndex s)) (Number rowIndex)
              then ''drawer-active'' else ''''),
         Cls (rowClass p rowIndex),
         Flag ''sort-table__row--expandable'' (expandableConfig p \<noteq> None)]"

text \<open>A body cell: the \<^verbatim>\<open>td\<close> of column \<open>c\<close>, at position \<open>colIndex\<close>.\<close>

definition bodyCell ::
  "('n, 'e) TableProps \<Rightarrow> number \<Rightarrow> nat \<Rightarrow> 'n SortableColumn \<Rightarrow> ('n, 'e) node" where
  "bodyCell p rowIndex colIndex c =
     Elem ''td''
       (no_attrs \<lparr>
          className := Some (cx [Cls ''sort-table__cell'',
                                 Flag ''sort-table__cell--header''
                                   (truthy (firstCellBordered p) \<and> colIndex = 0),
                                 opt_cls (SortableColumn.className c)]),
          key := Some (Num (int colIndex)) \<rparr>)
       [Node (cell c rowIndex)]"

text \<open>The first element of \<^verbatim>\<open>output\<close>: the body row.\<close>

definition bodyRow :: "('n, 'e) TableProps \<Rightarrow> State \<Rightarrow> number \<Rightarrow> ('n, 'e) node" where
  "bodyRow p s rowIndex =
     Elem ''tr''
       (no_attrs \<lparr>
          className := Some (rowClasses p s rowIndex),
          key := Some rowIndex,
          onClick := Some (case expandableConfig p of
                             None \<Rightarrow> []
                           | Some ec \<Rightarrow>
                               [OnChangeExpansion rowIndex (\<not> rowIsExpanded ec rowIndex)]) \<rparr>)
       [case expandableConfig p of
          None \<Rightarrow> Omitted
        | Some ec \<Rightarrow> expansionControl (rowIsExpanded ec rowIndex),
        Nodes (map (\<lambda>(colIndex, c). bodyCell p rowIndex colIndex c)
                 (enumerate 0 (columns p)))]"

definition renderRow ::
  "('n, 'e) TableProps \<Rightarrow> State \<Rightarrow> number \<Rightarrow> ('n, 'e) node list" where
  "renderRow p s rowIndex =
     (let output = [bodyRow p s rowIndex] in
      case expandableConfig p of
        None \<Rightarrow> output
      | Some ec \<Rightarrow>
          if rowIsExpanded ec rowIndex then
            (let expandedAreaClasses =
                   cx [Cls ''sort-table__row'',
                       Cls ''sort-table__row--body'',
                       Cls ''sort-table__row--expanded-area'']
             in output @
                [Elem ''tr''
                   (no_attrs \<lparr> className := Some (rowClasses p s rowIndex),
                               key := Some (Num (int (length output) + 1)) \<rparr>)
                   [],
                 Elem ''tr''
                   (no_attrs \<lparr> className := Some expandedAreaClasses,
                               key := Some (Num (int (length output) + 2)) \<rparr>)
                   [Elem ''td'' no_attrs [],
                    Elem ''td''
                      (no_attrs \<lparr> className := Some (cx [Cls ''sort-table__cell'']),
                                  colSpan := Some (length (columns p)) \<rparr>)
                      [Node (expandedContent ec rowIndex)]]])
          else output)"

subsection \<open>render\<close>

text \<open>A header cell: the \<^verbatim>\<open>th\<close> of column \<open>c\<close>, at position \<open>colIndex\<close>.\<close>

definition headerCell ::
  "('n, 'e) TableProps \<Rightarrow> nat \<Rightarrow> 'n SortableColumn \<Rightarrow> ('n, 'e) node" where
  "headerCell p colIndex c =
     (let classes =
            cx [Cls ''sort-table__cell''] @
            (if \<not> isUndefined (SortableColumn.sortKey c) then
               cx [Cls ''sort-table__cell--sortable''] @
               (if strict_eq (SortableColumn.sortKey c) (SortSetting.sortKey (sortSetting p))
                then (if ascending (sortSetting p)
                      then cx [Cls ''sort-table__cell--ascending'']
                      else cx [Cls ''sort-table__cell--descending''])
                else [])
             else []) @
            (if truthy (firstCellBordered p) \<and> colIndex = 0
             then cx [Cls ''sort-table__cell--header''] else []);
          onClick =
            (if \<not> isUndefined (SortableColumn.sortKey c)
             then Some (clickSort p (SortableColumn.sortKey c)) else None)
      in Elem ''th''
           \<lparr> className = Some classes,
             key = Some (Num (int colIndex)),
             onClick = onClick,
             colSpan = None,
             style = Some (titleAlign c) \<rparr>
           [Node (title c),
            if \<not> isUndefined (SortableColumn.sortKey c)
            then Elem ''span'' (cls (cx [Cls ''sortable__actions''])) []
            else Omitted])"

definition thead :: "('n, 'e) TableProps \<Rightarrow> ('n, 'e) node" where
  "thead p =
     Elem ''thead'' no_attrs
       [Elem ''tr'' (cls (cx [Cls ''sort-table__row'', Cls ''sort-table__row--header'']))
          [if expandableConfig p \<noteq> None
           then Elem ''th'' (cls (cx [Cls ''sort-table__cell''])) []
           else Omitted,
           Nodes (map (\<lambda>(colIndex, c). headerCell p colIndex c)
                    (enumerate 0 (columns p)))]]"

definition tbody :: "('n, 'e) TableProps \<Rightarrow> State \<Rightarrow> ('n, 'e) node" where
  "tbody p s =
     Elem ''tbody'' no_attrs
       [if \<not> truthy (loading p)
        then Nodes (map Nodes (lodash_times (count p) (renderRow p s)))
        else Omitted]"

definition loadingIndicator :: "('n, 'e) TableProps \<Rightarrow> ('n, 'e) node" where
  "loadingIndicator p =
     (if truthy (loading p) then
        Elem ''div'' (cls (cx [Cls ''table__loading'']))
          [Spin (cx [Cls ''table__loading--spin'']),
           case loadingLabel p of
             None \<Rightarrow> Omitted
           | Some l \<Rightarrow>
               if l = [] then Text l
               else Elem ''span'' (cls (cx [Cls ''table__loading--label''])) [Text l]]
      else Omitted)"

definition noResults :: "('n, 'e) TableProps \<Rightarrow> ('n, 'e) node" where
  "noResults p =
     (if strict_eq (Number (count p)) (Number (Num 0))
      then Elem ''div'' (cls (cx [Cls ''table__no-results''])) [opt_node (renderNoResult p)]
      else Omitted)"

definition render :: "('n, 'e) TableProps \<Rightarrow> State \<Rightarrow> ('n, 'e) node" where
  "render p s =
     (if truthy (empty p) then Empty (emptyProps p)
      else
        Elem ''div'' (cls (cx [Cls ''cl-table-wrapper'']))
          [Elem ''table''
             (cls (cx [Cls ''sort-table'', opt_cls (TableProps.className p)]))
             [thead p, tbody p s],
           loadingIndicator p,
           noResults p])"

subsection \<open>The callbacks of the props that a render calls\<close>

text \<open>
  Rendering calls the caller's functions \<^verbatim>\<open>rowClass\<close>, \<^verbatim>\<open>rowIsExpanded\<close>,
  \<^verbatim>\<open>cell\<close> (of the column at a position) and \<^verbatim>\<open>expandedContent\<close>. The calls of one
  \<^verbatim>\<open>renderRow\<close>, and of one \<^verbatim>\<open>render\<close> (those of \<^verbatim>\<open>renderRow\<close> at every index at
  which \<^verbatim>\<open>times\<close> calls it), in the order the code makes them:
\<close>

datatype incall =
    RowClass number
  | RowIsExpanded number
  | Cell nat number
  | ExpandedContent number

definition renderRow_calls :: "('n, 'e) TableProps \<Rightarrow> number \<Rightarrow> incall list" where
  "renderRow_calls p rowIndex =
     [RowClass rowIndex] @
     (case expandableConfig p of None \<Rightarrow> [] | Some ec \<Rightarrow> [RowIsExpanded rowIndex]) @
     map (\<lambda>(colIndex, c). Cell colIndex rowIndex) (enumerate 0 (columns p)) @
     (case expandableConfig p of
        None \<Rightarrow> []
      | Some ec \<Rightarrow>
          [RowIsExpanded rowIndex] @
          (if rowIsExpanded ec rowIndex then [ExpandedContent rowIndex] else []))"

definition render_calls :: "('n, 'e) TableProps \<Rightarrow> incall list" where
  "render_calls p =
     (if truthy (empty p) then []
      else if \<not> truthy (loading p)
           then concat (map (renderRow_calls p) (lodash_times_called (count p)))
           else [])"

section \<open>An example table\<close>

text \<open>
  The scenario of the specification: a column "Name" without a sort key, a column "Age"
  with the sort key \<^verbatim>\<open>"age"\<close>, three rows and the default sort setting; and the same
  table with expandable rows, the row of index 1 expanded.
\<close>

definition nameColumn :: "string SortableColumn" where
  "nameColumn =
     \<lparr> title = ''Name'',
       cell = (\<lambda>rowIndex. case rowIndex of
                  NaN \<Rightarrow> ''''
                | Num i \<Rightarrow> if 0 \<le> i \<and> i < 3 then [''Ann'', ''Bob'', ''Cy''] ! nat i else ''''),
       rollup = None,
       SortableColumn.sortKey = Undefined,
       SortableColumn.className = None,
       titleAlign = None \<rparr>"

definition ageColumn :: "string SortableColumn" where
  "ageColumn =
     \<lparr> title = ''Age'',
       cell = (\<lambda>rowIndex. case rowIndex of
                  NaN \<Rightarrow> ''''
                | Num i \<Rightarrow> if 0 \<le> i \<and> i < 3 then [''31'', ''27'', ''45''] ! nat i else ''''),
       rollup = None,
       SortableColumn.sortKey = Str ''age'',
       SortableColumn.className = None,
       titleAlign = None \<rparr>"

definition scenario :: "(string, unit) TableProps" where
  "scenario = defaultProps \<lparr> count := Num 3, columns := [nameColumn, ageColumn] \<rparr>"

definition drawers :: "string ExpandableConfig" where
  "drawers =
     \<lparr> rowIsExpanded = (\<lambda>rowIndex. rowIndex = Num 1),
       expandedContent = (\<lambda>rowIndex. ''details'') \<rparr>"

definition scenario_expandable :: "(string, unit) TableProps" where
  "scenario_expandable = scenario \<lparr> expandableConfig := Some drawers \<rparr>"

section \<open>Auxiliary facts\<close>

lemma flatten_Elems:
  "\<forall>x \<in> set xs. \<exists>t a ch. x = Elem t a ch \<Longrightarrow> concat (map flatten xs) = xs"
  by (induction xs) auto

lemma renderRow_Elems:
  "x \<in> set (renderRow p s i) \<Longrightarrow> \<exists>t a ch. x = Elem t a ch"
  by (auto simp: renderRow_def bodyRow_def Let_def split: option.splits if_splits)

lemma flatten_renderRow: "concat (map flatten (renderRow p s i)) = renderRow p s i"
  by (rule flatten_Elems) (blast dest: renderRow_Elems)

lemma renderRow_hd: "\<exists>rest. renderRow p s i = bodyRow p s i # rest"
  by (simp add: renderRow_def Let_def split: option.splits)

lemma render_table:
  "\<not> truthy (empty p) \<Longrightarrow>
   render p s =
     Elem ''div'' (cls [''cl-table-wrapper''])
       [Elem ''table'' (cls (cx [Cls ''sort-table'', opt_cls (TableProps.className p)]))
          [thead p, tbody p s],
        loadingIndicator p, noResults p]"
  by (simp add: render_def cx_def)

lemma lodash_times_in_range:
  "0 \<le> n \<Longrightarrow> n \<le> MAX_ARRAY_LENGTH \<Longrightarrow>
   lodash_times (Num n) f = map (\<lambda>i. f (Num (int i))) [0..<nat n]"
  by (simp add: lodash_times_def baseTimes_def MAX_ARRAY_LENGTH_def MAX_SAFE_INTEGER_def)

lemma lodash_times_length:
  "length (lodash_times (Num n) f) =
     (if n < 1 \<or> n > MAX_SAFE_INTEGER then 0 else nat (min n MAX_ARRAY_LENGTH))"
  by (simp add: lodash_times_def baseTimes_def)

lemma data_rows_renderRow:
  "filter (\<lambda>row. onClick (attrs_of row) \<noteq> None) (renderRow p s i) = [bodyRow p s i]"
  by (simp add: renderRow_def bodyRow_def Let_def no_attrs_def split: option.splits)

lemma filter_concat_map_single:
  "(\<And>x. filter P (f x) = [g x]) \<Longrightarrow> filter P (concat (map f xs)) = map g xs"
  by (induction xs) simp_all


lemma data_rows_concat:
  "filter (\<lambda>row. onClick (attrs_of row) \<noteq> None)
     (concat (map (\<lambda>i. renderRow p s (f i)) xs)) =
   map (\<lambda>i. bodyRow p s (f i)) xs"
  by (rule filter_concat_map_single) (rule data_rows_renderRow)

lemma dom_children_tbody:
  "\<not> truthy (loading p) \<Longrightarrow>
   dom_children (tbody p s) = concat (lodash_times (count p) (renderRow p s))"
  by (simp add: tbody_def dom_children_def lodash_times_def baseTimes_def comp_def
      flatten_renderRow)

lemma data_rows_tbody:
  "\<not> truthy (loading p) \<Longrightarrow>
   data_rows (tbody p s) = lodash_times (count p) (bodyRow p s)"
  by (simp add: data_rows_def dom_children_tbody lodash_times_def baseTimes_def
      data_rows_concat del: not_None_eq)

lemma flatten_bodyCells:
  "concat (map (flatten \<circ> (\<lambda>(colIndex, c). bodyCell p i colIndex c)) xs) =
   map (\<lambda>(colIndex, c). bodyCell p i colIndex c) xs"
  by (induction xs) (auto simp: bodyCell_def)

lemma map_snd_enumerate_fun:
  "map (\<lambda>x. f (snd x)) (enumerate k xs) = map f xs"
  by (induction xs arbitrary: k) simp_all




section \<open>Sorting by a click on a header\<close>

text \<open>
  C1. Whatever the current sort setting and the clicked key \<open>K\<close>, \<open>clickSort\<close> calls
  \<^verbatim>\<open>onChangeSortSetting\<close> exactly once: with \<open>K\<close> descending when \<open>K\<close> is not strictly
  equal to the current key, with \<open>K\<close> ascending when it is and the current order is
  descending, and with the cleared setting when it is and the current order is ascending.
\<close>

theorem clickSort_tri_state:
  "(\<not> strict_eq (SortSetting.sortKey (sortSetting p)) K \<longrightarrow>
      clickSort p K = [OnChangeSortSetting \<lparr> SortSetting.sortKey = K, ascending = False \<rparr>]) \<and>
   (strict_eq (SortSetting.sortKey (sortSetting p)) K \<and> \<not> ascending (sortSetting p) \<longrightarrow>
      clickSort p K = [OnChangeSortSetting \<lparr> SortSetting.sortKey = K, ascending = True \<rparr>]) \<and>
   (strict_eq (SortSetting.sortKey (sortSetting p)) K \<and> ascending (sortSetting p) \<longrightarrow>
      clickSort p K = [OnChangeSortSetting \<lparr> SortSetting.sortKey = Null, ascending = False \<rparr>])"
  by (simp add: clickSort_def)

theorem clickSort_tri_state_witness:
  "\<not> strict_eq (SortSetting.sortKey (sortSetting (defaultProps :: (string, unit) TableProps)))
       (Str ''age'') \<and>
   clickSort (defaultProps :: (string, unit) TableProps) (Str ''age'') =
     [OnChangeSortSetting \<lparr> SortSetting.sortKey = Str ''age'', ascending = False \<rparr>] \<and>
   clickSort
     ((defaultProps :: (string, unit) TableProps)
        \<lparr> sortSetting := \<lparr> SortSetting.sortKey = Str ''age'', ascending = False \<rparr> \<rparr>)
     (Str ''age'') =
     [OnChangeSortSetting \<lparr> SortSetting.sortKey = Str ''age'', ascending = True \<rparr>] \<and>
   clickSort
     ((defaultProps :: (string, unit) TableProps)
        \<lparr> sortSetting := \<lparr> SortSetting.sortKey = Str ''age'', ascending = True \<rparr> \<rparr>)
     (Str ''age'') =
     [OnChangeSortSetting \<lparr> SortSetting.sortKey = Null, ascending = False \<rparr>]"
  using
    clickSort_tri_state [of "defaultProps :: (string, unit) TableProps" "Str ''age''"]
    clickSort_tri_state
      [of "(defaultProps :: (string, unit) TableProps)
             \<lparr> sortSetting := \<lparr> SortSetting.sortKey = Str ''age'', ascending = False \<rparr> \<rparr>"
          "Str ''age''"]
    clickSort_tri_state
      [of "(defaultProps :: (string, unit) TableProps)
             \<lparr> sortSetting := \<lparr> SortSetting.sortKey = Str ''age'', ascending = True \<rparr> \<rparr>"
          "Str ''age''"]
  by (simp add: defaultProps_def strict_eq_def)

text \<open>
  C9. A sort key \<open>K\<close> that is strictly equal to itself (every value but \<^verbatim>\<open>NaN\<close>),
  clicked three times from a setting whose key is not strictly equal to \<open>K\<close>, each
  emitted setting being the next current one: the clicks emit \<open>K\<close> descending, then
  \<open>K\<close> ascending, then the cleared setting.
\<close>

theorem clickSort_cycle:
  assumes "strict_eq K K"
    and "\<not> strict_eq (SortSetting.sortKey (sortSetting p)) K"
  shows "clickSort p K =
      [OnChangeSortSetting \<lparr> SortSetting.sortKey = K, ascending = False \<rparr>] \<and>
    clickSort (p\<lparr>sortSetting := \<lparr> SortSetting.sortKey = K, ascending = False \<rparr>\<rparr>) K =
      [OnChangeSortSetting \<lparr> SortSetting.sortKey = K, ascending = True \<rparr>] \<and>
    clickSort (p\<lparr>sortSetting := \<lparr> SortSetting.sortKey = K, ascending = True \<rparr>\<rparr>) K =
      [OnChangeSortSetting \<lparr> SortSetting.sortKey = Null, ascending = False \<rparr>]"
  using assms by (simp add: clickSort_def)

theorem clickSort_cycle_witness:
  "strict_eq (Str ''age'') (Str ''age'') \<and>
   \<not> strict_eq (SortSetting.sortKey (sortSetting scenario)) (Str ''age'') \<and>
   clickSort scenario (Str ''age'') =
     [OnChangeSortSetting \<lparr> SortSetting.sortKey = Str ''age'', ascending = False \<rparr>] \<and>
   clickSort
     (scenario \<lparr> sortSetting := \<lparr> SortSetting.sortKey = Str ''age'', ascending = False \<rparr> \<rparr>)
     (Str ''age'') =
     [OnChangeSortSetting \<lparr> SortSetting.sortKey = Str ''age'', ascending = True \<rparr>] \<and>
   clickSort
     (scenario \<lparr> sortSetting := \<lparr> SortSetting.sortKey = Str ''age'', ascending = True \<rparr> \<rparr>)
     (Str ''age'') =
     [OnChangeSortSetting \<lparr> SortSetting.sortKey = Null, ascending = False \<rparr>]"
proof -
  have r: "strict_eq (Str ''age'') (Str ''age'')"
    and d: "\<not> strict_eq (SortSetting.sortKey (sortSetting scenario)) (Str ''age'')"
    by (simp_all add: strict_eq_def scenario_def defaultProps_def)
  show ?thesis using r d clickSort_cycle [OF r d] by simp
qed

text \<open>
  The restriction is needed: \<^verbatim>\<open>NaN === NaN\<close> is false, so a column whose sort key is
  \<^verbatim>\<open>NaN\<close> never leaves the first step. From the default setting, the first click emits
  \<^verbatim>\<open>NaN\<close> descending, and with that as the current setting the next click emits it
  again: neither \<^verbatim>\<open>NaN\<close> ascending nor the cleared setting.
\<close>

theorem clickSort_NaN_never_cycles:
  "\<not> strict_eq (SortSetting.sortKey (sortSetting (defaultProps :: (string, unit) TableProps)))
       (Number NaN) \<and>
   clickSort (defaultProps :: (string, unit) TableProps) (Number NaN) =
     [OnChangeSortSetting \<lparr> SortSetting.sortKey = Number NaN, ascending = False \<rparr>] \<and>
   clickSort
     ((defaultProps :: (string, unit) TableProps)
        \<lparr> sortSetting := \<lparr> SortSetting.sortKey = Number NaN, ascending = False \<rparr> \<rparr>)
     (Number NaN) =
     [OnChangeSortSetting \<lparr> SortSetting.sortKey = Number NaN, ascending = False \<rparr>] \<and>
   clickSort
     ((defaultProps :: (string, unit) TableProps)
        \<lparr> sortSetting := \<lparr> SortSetting.sortKey = Number NaN, ascending = False \<rparr> \<rparr>)
     (Number NaN) \<noteq>
     [OnChangeSortSetting \<lparr> SortSetting.sortKey = Number NaN, ascending = True \<rparr>] \<and>
   clickSort
     ((defaultProps :: (string, unit) TableProps)
        \<lparr> sortSetting := \<lparr> SortSetting.sortKey = Number NaN, ascending = False \<rparr> \<rparr>)
     (Number NaN) \<noteq>
     [OnChangeSortSetting \<lparr> SortSetting.sortKey = Null, ascending = False \<rparr>]"
  by (simp add: clickSort_def defaultProps_def strict_eq_def)

section \<open>The header\<close>



section \<open>The body\<close>

text \<open>
  C2. When \<^verbatim>\<open>empty\<close> is not set and \<^verbatim>\<open>count\<close> is a number \<open>n \<ge> 0\<close>, the body is
  the second child of the table. If \<^verbatim>\<open>loading\<close> is not true, the number of its data
  rows is \<open>n\<close> up to \<^verbatim>\<open>MAX_ARRAY_LENGTH\<close>, stays at \<^verbatim>\<open>MAX_ARRAY_LENGTH\<close> up to
  \<^verbatim>\<open>MAX_SAFE_INTEGER\<close> and is 0 beyond; and for \<open>n\<close> up to \<^verbatim>\<open>MAX_ARRAY_LENGTH\<close> the
  body holds the array of the results of \<open>renderRow\<close> at the indices 0, ..., \<open>n - 1\<close>,
  in this order, its data rows being the body rows of these indices. If \<^verbatim>\<open>loading\<close> is
  true, the body holds no row.
\<close>

theorem render_data_rows:
  assumes "\<not> truthy (empty p)" and "count p = Num n" and "0 \<le> n"
  shows "children_of (children_of (render p s) ! 0) ! 1 = tbody p s \<and>
    (\<not> truthy (loading p) \<longrightarrow>
       int (length (data_rows (children_of (children_of (render p s) ! 0) ! 1))) =
         (if n > MAX_SAFE_INTEGER then 0 else min n MAX_ARRAY_LENGTH)) \<and>
    (\<not> truthy (loading p) \<and> n \<le> MAX_ARRAY_LENGTH \<longrightarrow>
       tbody p s =
         Elem ''tbody'' no_attrs
           [Nodes (map (\<lambda>i. Nodes (renderRow p s (Num (int i)))) [0..<nat n])] \<and>
       dom_children (children_of (children_of (render p s) ! 0) ! 1) =
         concat (map (\<lambda>i. renderRow p s (Num (int i))) [0..<nat n]) \<and>
       data_rows (children_of (children_of (render p s) ! 0) ! 1) =
         map (\<lambda>i. bodyRow p s (Num (int i))) [0..<nat n] \<and>
       int (length (data_rows (children_of (children_of (render p s) ! 0) ! 1))) = n) \<and>
    (truthy (loading p) \<longrightarrow>
       tbody p s = Elem ''tbody'' no_attrs [Omitted] \<and>
       dom_children (children_of (children_of (render p s) ! 0) ! 1) = [] \<and>
       data_rows (children_of (children_of (render p s) ! 0) ! 1) = [])"
proof -
  have 1: "children_of (children_of (render p s) ! 0) ! 1 = tbody p s"
    using assms(1) by (simp add: render_table)
  have 2: "int (length (data_rows (tbody p s))) =
      (if n > MAX_SAFE_INTEGER then 0 else min n MAX_ARRAY_LENGTH)"
    if "\<not> truthy (loading p)"
    using that assms(2,3)
    by (simp add: data_rows_tbody lodash_times_length MAX_ARRAY_LENGTH_def)
  have t: "lodash_times (count p) f = map (\<lambda>i. f (Num (int i))) [0..<nat n]"
    if "n \<le> MAX_ARRAY_LENGTH" for f :: "number \<Rightarrow> 'x"
    using that assms(2,3) by (simp add: lodash_times_in_range)
  have 3: "tbody p s =
         Elem ''tbody'' no_attrs
           [Nodes (map (\<lambda>i. Nodes (renderRow p s (Num (int i)))) [0..<nat n])]"
    if "\<not> truthy (loading p)" and "n \<le> MAX_ARRAY_LENGTH"
    using that by (simp add: tbody_def t comp_def)
  have 4: "dom_children (tbody p s) =
         concat (map (\<lambda>i. renderRow p s (Num (int i))) [0..<nat n])"
    if "\<not> truthy (loading p)" and "n \<le> MAX_ARRAY_LENGTH"
    using that by (simp add: dom_children_tbody t)
  have 5: "data_rows (tbody p s) = map (\<lambda>i. bodyRow p s (Num (int i))) [0..<nat n]"
    if "\<not> truthy (loading p)" and "n \<le> MAX_ARRAY_LENGTH"
    using that by (simp add: data_rows_tbody t)
  have 6: "int (length (data_rows (tbody p s))) = n"
    if "\<not> truthy (loading p)" and "n \<le> MAX_ARRAY_LENGTH"
    using that assms(3) by (simp add: 5)
  have 7: "tbody p s = Elem ''tbody'' no_attrs [Omitted] \<and> dom_children (tbody p s) = [] \<and>
      data_rows (tbody p s) = []"
    if "truthy (loading p)"
    using that by (simp add: tbody_def dom_children_def data_rows_def)
  show ?thesis unfolding 1 using 2 3 4 5 6 7 by blast
qed

theorem render_data_rows_witness:
  "\<not> truthy (empty scenario) \<and> count scenario = Num 3 \<and> (0::int) \<le> 3 \<and>
   \<not> truthy (loading scenario) \<and> 3 \<le> MAX_ARRAY_LENGTH \<and>
   data_rows (children_of (children_of (render scenario state) ! 0) ! 1) =
     [bodyRow scenario state (Num 0), bodyRow scenario state (Num 1),
      bodyRow scenario state (Num 2)] \<and>
   int (length (data_rows (children_of (children_of (render scenario state) ! 0) ! 1))) = 3 \<and>
   truthy (loading (scenario \<lparr> loading := Some True \<rparr>)) \<and>
   data_rows
     (children_of
        (children_of (render (scenario \<lparr> loading := Some True \<rparr>) state) ! 0) ! 1) = []"
proof -
  have e: "\<not> truthy (empty scenario)" and c: "count scenario = Num 3"
    and l: "\<not> truthy (loading scenario)"
    by (simp_all add: scenario_def defaultProps_def truthy_def)
  have e': "\<not> truthy (empty (scenario \<lparr> loading := Some True \<rparr>))"
    and c': "count (scenario \<lparr> loading := Some True \<rparr>) = Num 3"
    and l': "truthy (loading (scenario \<lparr> loading := Some True \<rparr>))"
    by (simp_all add: scenario_def defaultProps_def truthy_def)
  have n: "(0::int) \<le> 3" by simp
  have m: "3 \<le> MAX_ARRAY_LENGTH" by (simp add: MAX_ARRAY_LENGTH_def)
  have u: "[0..<3::nat] = [0, 1, 2]" by (simp add: upt_rec)
  have "data_rows (children_of (children_of (render scenario state) ! 0) ! 1) =
      map (\<lambda>i. bodyRow scenario state (Num (int i))) [0..<nat 3]"
    using render_data_rows [OF e c n, of state] l m by blast
  then have 1: "data_rows (children_of (children_of (render scenario state) ! 0) ! 1) =
     [bodyRow scenario state (Num 0), bodyRow scenario state (Num 1),
      bodyRow scenario state (Num 2)]"
    by (simp add: u)
  have 2: "data_rows
     (children_of
        (children_of (render (scenario \<lparr> loading := Some True \<rparr>) state) ! 0) ! 1) = []"
    using render_data_rows [OF e' c' n, of state] l' by blast
  show ?thesis using e c n l m l' 1 2 by simp
qed

text \<open>
  Without the bound the count of rows is not the count of the props: \<^verbatim>\<open>times\<close> returns
  the empty array for a count above \<^verbatim>\<open>MAX_SAFE_INTEGER\<close>, so at the count 9007199254740992
  (2 to the power 53) a table that is not loading has no row at all.
\<close>

theorem render_data_rows_unsafe_count:
  "\<not> truthy (empty (scenario \<lparr> count := Num 9007199254740992 \<rparr>)) \<and>
   \<not> truthy (loading (scenario \<lparr> count := Num 9007199254740992 \<rparr>)) \<and>
   count (scenario \<lparr> count := Num 9007199254740992 \<rparr>) = Num 9007199254740992 \<and>
   (0::int) \<le> 9007199254740992 \<and>
   dom_children
     (children_of
        (children_of (render (scenario \<lparr> count := Num 9007199254740992 \<rparr>) state) ! 0) ! 1)
     = [] \<and>
   data_rows
     (children_of
        (children_of (render (scenario \<lparr> count := Num 9007199254740992 \<rparr>) state) ! 0) ! 1)
     = []"
  by (simp add: scenario_def defaultProps_def truthy_def render_def tbody_def
      lodash_times_def MAX_SAFE_INTEGER_def dom_children_def data_rows_def)

text \<open>
  C10. When \<^verbatim>\<open>empty\<close> is not set and \<^verbatim>\<open>count\<close> is negative, \<open>render\<close> returns the
  table with its header and an empty body, no placeholder, and calls none of the
  callbacks of the props, so no \<^verbatim>\<open>cell\<close> of any column: \<^verbatim>\<open>times\<close> gives for a count
  below one what it gives for zero.
\<close>

theorem render_negative_count:
  assumes "\<not> truthy (empty p)" and "count p = Num n" and "n < 0"
  shows "render p s =
      Elem ''div'' (cls [''cl-table-wrapper''])
        [Elem ''table'' (cls (cx [Cls ''sort-table'', opt_cls (TableProps.className p)]))
           [thead p,
            Elem ''tbody'' no_attrs [if \<not> truthy (loading p) then Nodes [] else Omitted]],
         loadingIndicator p,
         Omitted] \<and>
    dom_children (tbody p s) = [] \<and>
    lodash_times (count p) (renderRow p s) = [] \<and>
    lodash_times (count p) f = lodash_times (Num 0) f \<and>
    render_calls p = []"
  using assms
  by (simp add: render_table tbody_def noResults_def strict_eq_def dom_children_def
      lodash_times_def lodash_times_called_def render_calls_def)

theorem render_negative_count_witness:
  "\<not> truthy (empty (scenario \<lparr> count := Num (- 2) \<rparr>)) \<and>
   count (scenario \<lparr> count := Num (- 2) \<rparr>) = Num (- 2) \<and> (- 2 :: int) < 0 \<and>
   dom_children (tbody (scenario \<lparr> count := Num (- 2) \<rparr>) state) = [] \<and>
   render_calls (scenario \<lparr> count := Num (- 2) \<rparr>) = []"
proof -
  have e: "\<not> truthy (empty (scenario \<lparr> count := Num (- 2) \<rparr>))"
    by (simp add: scenario_def defaultProps_def truthy_def)
  have c: "count (scenario \<lparr> count := Num (- 2) \<rparr>) = Num (- 2)" by simp
  have n: "(- 2 :: int) < 0" by simp
  show ?thesis using e c n render_negative_count [OF e c n, of state "\<lambda>rowIndex. rowIndex"] by simp
qed

text \<open>
  C6. With an expandable configuration, \<open>renderRow\<close> at an expanded index returns three
  rows: the body row; a row without children that has the class names of the body row;
  and a row of two cells, an empty one and one that spans as many columns as the table
  has and holds \<^verbatim>\<open>expandedContent\<close> of the index. At an index that is not expanded, and
  without an expandable configuration, it returns the body row alone.
\<close>

theorem renderRow_expanded:
  "(expandableConfig p = Some ec \<and> rowIsExpanded ec i \<longrightarrow>
      renderRow p s i =
        [bodyRow p s i,
         Elem ''tr''
           (no_attrs \<lparr> className := Attrs.className (attrs_of (bodyRow p s i)),
                       key := Some (Num 2) \<rparr>) [],
         Elem ''tr''
           (no_attrs \<lparr> className := Some [''sort-table__row'', ''sort-table__row--body'',
                                            ''sort-table__row--expanded-area''],
                       key := Some (Num 3) \<rparr>)
           [Elem ''td'' no_attrs [],
            Elem ''td''
              (no_attrs \<lparr> className := Some [''sort-table__cell''],
                          colSpan := Some (length (columns p)) \<rparr>)
              [Node (expandedContent ec i)]]] \<and>
      length (renderRow p s i) = 3) \<and>
   (expandableConfig p = Some ec \<and> \<not> rowIsExpanded ec i \<longrightarrow>
      renderRow p s i = [bodyRow p s i]) \<and>
   (expandableConfig p = None \<longrightarrow> renderRow p s i = [bodyRow p s i])"
  by (simp add: renderRow_def bodyRow_def Let_def cx_def)

theorem renderRow_expanded_witness:
  "expandableConfig scenario_expandable = Some drawers \<and>
   rowIsExpanded drawers (Num 1) \<and>
   length (renderRow scenario_expandable state (Num 1)) = 3 \<and>
   \<not> rowIsExpanded drawers (Num 0) \<and>
   renderRow scenario_expandable state (Num 0) = [bodyRow scenario_expandable state (Num 0)] \<and>
   expandableConfig scenario = None \<and>
   renderRow scenario state (Num 1) = [bodyRow scenario state (Num 1)]"
proof -
  have c: "expandableConfig scenario_expandable = Some drawers"
    and x1: "rowIsExpanded drawers (Num 1)" and x0: "\<not> rowIsExpanded drawers (Num 0)"
    and c0: "expandableConfig scenario = None"
    by (simp_all add: scenario_expandable_def scenario_def defaultProps_def drawers_def)
  show ?thesis
    using c x1 x0 c0
      renderRow_expanded [of scenario_expandable drawers "Num 1" state]
      renderRow_expanded [of scenario_expandable drawers "Num 0" state]
      renderRow_expanded [of scenario drawers "Num 1" state]
    by simp
qed

text \<open>
  C7. With an expandable configuration, the body row of index \<open>i\<close> renders the expansion
  control first, showing the expanded glyph when \<^verbatim>\<open>rowIsExpanded(i)\<close> and the collapsed
  glyph otherwise (the two differ), and then one cell per column, in order, holding that column's
  \<^verbatim>\<open>cell(i)\<close>. Activating the row calls \<^verbatim>\<open>onChangeExpansion\<close> once, with \<open>i\<close> and the
  negation of \<^verbatim>\<open>rowIsExpanded(i)\<close>.
\<close>

theorem bodyRow_expandable:
  fixes p :: "('n, 'e) TableProps"
  assumes "expandableConfig p = Some ec"
  shows "hd (renderRow p s i) = bodyRow p s i \<and>
    dom_children (bodyRow p s i) =
      expansionControl (rowIsExpanded ec i) #
      map (\<lambda>(colIndex, c). bodyCell p i colIndex c) (enumerate 0 (columns p)) \<and>
    dom_children (expansionControl (rowIsExpanded ec i) :: ('n, 'e) node) =
      [Elem ''div'' no_attrs
         [Text (if rowIsExpanded ec i then glyph_expanded else glyph_collapsed)]] \<and>
    glyph_expanded \<noteq> glyph_collapsed \<and>
    map dom_children (tl (dom_children (bodyRow p s i))) =
      map (\<lambda>c. [Node (cell c i)]) (columns p) \<and>
    length (tl (dom_children (bodyRow p s i))) = length (columns p) \<and>
    activate (bodyRow p s i) = [OnChangeExpansion i (\<not> rowIsExpanded ec i)]"
proof -
  have 1: "hd (renderRow p s i) = bodyRow p s i"
    using renderRow_hd [of p s i] by auto
  have 2: "dom_children (bodyRow p s i) =
      expansionControl (rowIsExpanded ec i) #
      map (\<lambda>(colIndex, c). bodyCell p i colIndex c) (enumerate 0 (columns p))"
    using assms
    by (simp add: dom_children_def bodyRow_def flatten_bodyCells expansionControl_def)
  have 3: "dom_children (expansionControl (rowIsExpanded ec i) :: ('n, 'e) node) =
      [Elem ''div'' no_attrs
         [Text (if rowIsExpanded ec i then glyph_expanded else glyph_collapsed)]]"
    by (simp add: dom_children_def expansionControl_def)
  have 4: "glyph_expanded \<noteq> glyph_collapsed"
    by (simp add: glyph_expanded_def glyph_collapsed_def)
  have 5: "map dom_children (tl (dom_children (bodyRow p s i))) =
      map (\<lambda>c. [Node (cell c i)]) (columns p)"
    unfolding 2
    by (simp add: comp_def split_def dom_children_def bodyCell_def
        map_snd_enumerate_fun [of "\<lambda>c. [Node (cell c i)]"])
  have 6: "length (tl (dom_children (bodyRow p s i))) = length (columns p)"
    by (simp add: 2)
  have 7: "activate (bodyRow p s i) = [OnChangeExpansion i (\<not> rowIsExpanded ec i)]"
    using assms by (simp add: activate_def bodyRow_def no_attrs_def)
  show ?thesis using 1 2 3 4 5 6 7 by blast
qed

theorem bodyRow_expandable_witness:
  "expandableConfig scenario_expandable = Some drawers \<and>
   activate (bodyRow scenario_expandable state (Num 1)) = [OnChangeExpansion (Num 1) False] \<and>
   activate (bodyRow scenario_expandable state (Num 0)) = [OnChangeExpansion (Num 0) True] \<and>
   map dom_children (tl (dom_children (bodyRow scenario_expandable state (Num 1)))) =
     [[Node ''Bob''], [Node ''27'']]"
proof -
  have c: "expandableConfig scenario_expandable = Some drawers"
    by (simp add: scenario_expandable_def)
  have x: "rowIsExpanded drawers (Num 1)" "\<not> rowIsExpanded drawers (Num 0)"
    by (simp_all add: drawers_def)
  have cols: "columns scenario_expandable = [nameColumn, ageColumn]"
    by (simp add: scenario_expandable_def scenario_def)
  have cells: "cell nameColumn (Num 1) = ''Bob''" "cell ageColumn (Num 1) = ''27''"
    by (simp_all add: nameColumn_def ageColumn_def)
  have a1: "activate (bodyRow scenario_expandable state (Num 1)) =
      [OnChangeExpansion (Num 1) (\<not> rowIsExpanded drawers (Num 1))]"
    using bodyRow_expandable [OF c, of state "Num 1"] by blast
  have a0: "activate (bodyRow scenario_expandable state (Num 0)) =
      [OnChangeExpansion (Num 0) (\<not> rowIsExpanded drawers (Num 0))]"
    using bodyRow_expandable [OF c, of state "Num 0"] by blast
  have m: "map dom_children (tl (dom_children (bodyRow scenario_expandable state (Num 1)))) =
      map (\<lambda>c. [Node (cell c (Num 1))]) (columns scenario_expandable)"
    using bodyRow_expandable [OF c, of state "Num 1"] by blast
  show ?thesis
    by (simp add: c a1 a0 m x cols cells)
qed

section \<open>The empty view and the placeholder\<close>

text \<open>
  C4. When \<^verbatim>\<open>empty\<close> is true, \<open>render\<close> returns the empty-state view and nothing
  else, with \<^verbatim>\<open>emptyProps\<close> as they were given, whatever the other props; no element of
  the table is rendered and no callback of the props is called.
\<close>

theorem render_empty:
  assumes "truthy (empty p)"
  shows "render p s = Empty (emptyProps p) \<and> children_of (render p s) = [] \<and>
         render_calls p = []"
  using assms by (simp add: render_def render_calls_def)

theorem render_empty_witness:
  "truthy (empty (scenario \<lparr> empty := Some True, emptyProps := Some () \<rparr>)) \<and>
   render (scenario \<lparr> empty := Some True, emptyProps := Some () \<rparr>) state = Empty (Some ()) \<and>
   render_calls (scenario \<lparr> empty := Some True, emptyProps := Some () \<rparr>) = []"
proof -
  have e: "truthy (empty (scenario \<lparr> empty := Some True, emptyProps := Some () \<rparr>))"
    by (simp add: truthy_def)
  show ?thesis using e render_empty [OF e, of state] by simp
qed

text \<open>
  C3. When \<^verbatim>\<open>empty\<close> is not set, the third child of the wrapper is the "no results"
  placeholder exactly when \<^verbatim>\<open>count === 0\<close>, and is omitted otherwise, in particular
  for every positive count. Whether \<^verbatim>\<open>loading\<close> is set makes no difference.
\<close>

theorem noResults_iff_count_zero:
  assumes "\<not> truthy (empty p)"
  shows "children_of (render p s) ! 2 = noResults p \<and>
    (noResults p =
       Elem ''div'' (cls [''table__no-results'']) [opt_node (renderNoResult p)])
      = (count p = Num 0) \<and>
    (noResults p = Omitted) = (count p \<noteq> Num 0) \<and>
    noResults (p\<lparr>loading := l\<rparr>) = noResults p \<and>
    (\<forall>n. count p = Num n \<and> 0 < n \<longrightarrow> noResults p = Omitted)"
  using assms by (auto simp: render_table noResults_def strict_eq_def cx_def)

theorem noResults_iff_count_zero_witness:
  "\<not> truthy (empty (defaultProps :: (string, unit) TableProps)) \<and>
   count (defaultProps :: (string, unit) TableProps) = Num 0 \<and>
   children_of (render (defaultProps :: (string, unit) TableProps) state) ! 2 =
     Elem ''div'' (cls [''table__no-results'']) [Omitted] \<and>
   \<not> truthy (empty scenario) \<and> count scenario = Num 3 \<and> (0::int) < 3 \<and>
   children_of (render scenario state) ! 2 = Omitted"
proof -
  have e0: "\<not> truthy (empty (defaultProps :: (string, unit) TableProps))"
    and c0: "count (defaultProps :: (string, unit) TableProps) = Num 0"
    and r0: "renderNoResult (defaultProps :: (string, unit) TableProps) = None"
    by (simp_all add: defaultProps_def truthy_def)
  have e: "\<not> truthy (empty scenario)" and c: "count scenario = Num 3"
    by (simp_all add: scenario_def defaultProps_def truthy_def)
  have n: "(0::int) < 3" by simp
  have 1: "children_of (render (defaultProps :: (string, unit) TableProps) state) ! 2 =
     Elem ''div'' (cls [''table__no-results'']) [Omitted]"
    using noResults_iff_count_zero [OF e0, of state] c0 r0 by (simp add: opt_node_def)
  have "noResults scenario = Omitted"
    using noResults_iff_count_zero [OF e, of state] c n by blast
  then have 2: "children_of (render scenario state) ! 2 = Omitted"
    using noResults_iff_count_zero [OF e, of state] by simp
  show ?thesis using e0 c0 1 e c n 2 by simp
qed

text \<open>
  The placeholder is not held back while the table is loading: with no rows and
  \<^verbatim>\<open>loading\<close> true, it is rendered, next to the loading indicator.
\<close>

theorem noResults_while_loading:
  "\<not> truthy (empty ((defaultProps :: (string, unit) TableProps)
        \<lparr> loading := Some True, renderNoResult := Some ''No results'' \<rparr>)) \<and>
   truthy (loading ((defaultProps :: (string, unit) TableProps)
        \<lparr> loading := Some True, renderNoResult := Some ''No results'' \<rparr>)) \<and>
   count ((defaultProps :: (string, unit) TableProps)
        \<lparr> loading := Some True, renderNoResult := Some ''No results'' \<rparr>) = Num 0 \<and>
   children_of
     (render ((defaultProps :: (string, unit) TableProps)
        \<lparr> loading := Some True, renderNoResult := Some ''No results'' \<rparr>) state) ! 2 =
     Elem ''div'' (cls [''table__no-results'']) [Node ''No results'']"
  by (simp add: render_def defaultProps_def truthy_def noResults_def strict_eq_def cx_def
      opt_node_def)

section \<open>The state of the component\<close>



end
